theory Spec2Isabelle
  imports Main "HOL-Library.Option_ord" "HOL-Library.Multiset"
begin

section \<open>The task service of the server (server/src/services/task.js)\<close>

subsection \<open>Rows and tables\<close>

text \<open>
  Modelled from the spec: the Sequelize models of \<^verbatim>\<open>@models\<close> are not among the sources.
  The columns are those the specification's data model names. Primary keys are numbers.
\<close>

type_synonym ident = nat

record task =
  task_id :: ident
  title :: string
  isDone :: bool
  position :: int
  dueDate :: "string option"
  sectionId :: ident
  projectId :: ident
  parentId :: "ident option"

record project =
  project_id :: ident
  creatorId :: ident

record section_row =
  section_id :: ident
  section_projectId :: ident

text \<open>
  The committed content of the database. \<open>task_labels\<close> is the join table of the
  many-to-many association between tasks and labels: pairs (task id, label id).
\<close>

record db =
  tasks :: "task list"
  sections :: "section_row list"
  projects :: "project list"
  labels :: "ident list"
  task_labels :: "(ident \<times> ident) list"

text \<open>Primary keys are unique in every table.\<close>

definition primary_keys :: "db \<Rightarrow> bool" where
  "primary_keys d \<longleftrightarrow>
     distinct (map task_id (tasks d)) \<and> distinct (map section_id (sections d)) \<and>
     distinct (map project_id (projects d))"

subsection \<open>Errors\<close>

text \<open>
  \<^verbatim>\<open>@utils/error-codes\<close> and \<^verbatim>\<open>@utils/error-messages\<close> are not among the sources. The
  codes are the three the service uses; the messages are kept symbolic, one constructor
  for each way the service builds one (\<^verbatim>\<open>FORBIDDEN_ERROR\<close> is used both as a value and,
  in \<^verbatim>\<open>create\<close>, applied to a name).
\<close>

datatype error_code = NOT_FOUND_ERROR | FORBIDDEN_ERROR | BAD_REQUEST_ERROR

text \<open>Modelled from the spec: the HTTP numbers of the codes (404, 403, 400).\<close>

fun http_status :: "error_code \<Rightarrow> nat" where
  "http_status NOT_FOUND_ERROR = 404"
| "http_status FORBIDDEN_ERROR = 403"
| "http_status BAD_REQUEST_ERROR = 400"

datatype error_message =
    NOT_FOUND_MESSAGE string
  | FORBIDDEN_MESSAGE
  | FORBIDDEN_MESSAGE_OF string
  | WRONG_RELATION_MESSAGE string

text \<open>
  \<open>Error m c\<close> is \<^verbatim>\<open>new Error(m)\<close> with \<^verbatim>\<open>error.status = c\<close>. \<open>SyntaxError\<close> is what
  \<^verbatim>\<open>JSON.parse\<close> throws, \<open>ForeignKeyConstraintError\<close> what the ORM throws when a row of
  the join table would name a label that does not exist; neither has a status field.
\<close>

datatype error =
    Error error_message error_code
  | SyntaxError
  | ForeignKeyConstraintError

fun status :: "error \<Rightarrow> error_code option" where
  "status (Error m c) = Some c"
| "status SyntaxError = None"
| "status ForeignKeyConstraintError = None"

fun message :: "error \<Rightarrow> error_message option" where
  "message (Error m c) = Some m"
| "message SyntaxError = None"
| "message ForeignKeyConstraintError = None"

subsection \<open>Queries of the ORM\<close>

definition findByPk_task :: "db \<Rightarrow> ident \<Rightarrow> task option" where
  "findByPk_task d i = find (\<lambda>t. task_id t = i) (tasks d)"

definition findByPk_project :: "db \<Rightarrow> ident \<Rightarrow> project option" where
  "findByPk_project d i = find (\<lambda>p. project_id p = i) (projects d)"

definition findByPk_section :: "db \<Rightarrow> ident \<Rightarrow> section_row option" where
  "findByPk_section d i = find (\<lambda>s. section_id s = i) (sections d)"

text \<open>The association \<^verbatim>\<open>tasks\<close> of a section, and the sub-tasks of a task.\<close>

definition section_tasks :: "db \<Rightarrow> ident \<Rightarrow> task list" where
  "section_tasks d s = filter (\<lambda>t. sectionId t = s) (tasks d)"

definition sub_tasks :: "db \<Rightarrow> ident \<Rightarrow> task list" where
  "sub_tasks d i = filter (\<lambda>c. parentId c = Some i) (tasks d)"

definition labels_of :: "db \<Rightarrow> ident \<Rightarrow> ident list" where
  "labels_of d i = map snd (filter (\<lambda>r. fst r = i) (task_labels d))"

subsection \<open>Ownership\<close>

text \<open>
  Modelled from the spec: \<^verbatim>\<open>@services/authorization-check\<close> is not among the sources.
  Each predicate takes an entity id and a user id and tells whether the owning chain
  (task to project, section to project, the project itself) ends in a project whose
  \<open>creatorId\<close> is the user. They read the database and change nothing.
\<close>

definition isProjectOwner :: "db \<Rightarrow> ident \<Rightarrow> ident \<Rightarrow> bool" where
  "isProjectOwner d i userId =
     (case findByPk_project d i of None \<Rightarrow> False | Some p \<Rightarrow> creatorId p = userId)"

definition isSectionOwner :: "db \<Rightarrow> ident \<Rightarrow> ident \<Rightarrow> bool" where
  "isSectionOwner d i userId =
     (case findByPk_section d i of None \<Rightarrow> False
      | Some s \<Rightarrow> isProjectOwner d (section_projectId s) userId)"

definition isTaskOwner :: "db \<Rightarrow> ident \<Rightarrow> ident \<Rightarrow> bool" where
  "isTaskOwner d i userId =
     (case findByPk_task d i of None \<Rightarrow> False
      | Some t \<Rightarrow> isProjectOwner d (projectId t) userId)"

subsection \<open>retrieveById\<close>

text \<open>
  A task as the queries return it: with its labels and with its sub-tasks, each with its
  own labels (priority, alarm and bookmarks are included in the same way and left out).
\<close>

record populated =
  pt_task :: task
  pt_labels :: "ident list"
  pt_tasks :: "(task \<times> ident list) list"

definition with_labels :: "db \<Rightarrow> task \<Rightarrow> task \<times> ident list" where
  "with_labels d c = (c, labels_of d (task_id c))"

text \<open>
  \<^verbatim>\<open>order: [[taskModel, 'position', 'ASC']]\<close> names the included model: the rows of the
  join are ordered by the position of the sub-task.
\<close>

definition retrieveById :: "db \<Rightarrow> ident \<Rightarrow> ident \<Rightarrow> error + populated" where
  "retrieveById d i userId =
     (case findByPk_task d i of
        None \<Rightarrow> Inl (Error (NOT_FOUND_MESSAGE ''task'') NOT_FOUND_ERROR)
      | Some t \<Rightarrow>
          if \<not> isTaskOwner d i userId then Inl (Error FORBIDDEN_MESSAGE FORBIDDEN_ERROR)
          else Inr \<lparr>pt_task = t, pt_labels = labels_of d i,
                    pt_tasks = map (with_labels d) (sort_key position (sub_tasks d i))\<rparr>)"

subsection \<open>remove\<close>

text \<open>
  \<^verbatim>\<open>taskModel.destroy({ where: { id } })\<close> deletes the rows whose id is the given one and
  resolves to their number. What the schema does with the rows that reference a deleted
  task is not in the sources; the model leaves them.
\<close>

definition destroy :: "db \<Rightarrow> ident \<Rightarrow> db \<times> nat" where
  "destroy d i =
     (d\<lparr>tasks := filter (\<lambda>t. task_id t \<noteq> i) (tasks d)\<rparr>,
      length (filter (\<lambda>t. task_id t = i) (tasks d)))"

definition remove :: "db \<Rightarrow> ident \<Rightarrow> db \<times> nat" where
  "remove d i = destroy d i"

subsection \<open>Transactions\<close>

text \<open>
  A query that is given \<^verbatim>\<open>{ transaction: t }\<close> runs inside \<open>t\<close>: its write is pending
  until \<open>t\<close> is committed, and dropped when \<open>t\<close> is rolled back. A query that is not given
  the option runs on a connection of its own and is committed at once (the service
  passes the option by hand, query by query).
\<close>

datatype pending_write = InsertTask task | SetLabels ident "ident list"

type_synonym transaction = "pending_write list"

fun apply_write :: "db \<Rightarrow> pending_write \<Rightarrow> db" where
  "apply_write d (InsertTask t) = d\<lparr>tasks := tasks d @ [t]\<rparr>"
| "apply_write d (SetLabels i ls) =
     d\<lparr>task_labels := filter (\<lambda>r. fst r \<noteq> i) (task_labels d) @ map (Pair i) ls\<rparr>"

definition t_commit :: "db \<Rightarrow> transaction \<Rightarrow> db" where
  "t_commit d t = foldl apply_write d t"

definition t_rollback :: "transaction \<Rightarrow> transaction" where
  "t_rollback t = []"

text \<open>
  \<^verbatim>\<open>sequelize.transaction(callback)\<close>: the callback gets a fresh transaction; it returns
  the database (with what it committed outside the transaction), the transaction and
  its result. A result commits the transaction, an error rolls it back and is thrown on.
\<close>

definition sequelize_transaction ::
  "(transaction \<Rightarrow> db \<Rightarrow> db \<times> transaction \<times> (error + 'a)) \<Rightarrow> db \<Rightarrow> db \<times> (error + 'a)" where
  "sequelize_transaction callback d =
     (case callback [] d of
        (d', t, Inl e) \<Rightarrow> (d', Inl e)
      | (d', t, Inr r) \<Rightarrow> (t_commit d' t, Inr r))"

subsection \<open>Label lists\<close>

text \<open>
  The values of \<^verbatim>\<open>JSON.parse\<close>. The parser itself is a built-in of the language: the
  service functions take it as the parameter \<open>parse\<close>, \<open>None\<close> where \<^verbatim>\<open>JSON.parse\<close>
  throws its SyntaxError.
\<close>

datatype json =
    JNull | JBool bool | JNum int | JStr string | JArr "json list"
  | JObj "(string \<times> json) list"

text \<open>
  The association setter takes null as the empty list and a value that is not an array
  as the list of that value; every element is the key of a label. In the model a key is
  a number that is not negative, and a row of the join table needs its label to exist.
\<close>

fun toInstanceArray :: "json \<Rightarrow> json list" where
  "toInstanceArray JNull = []"
| "toInstanceArray (JArr xs) = xs"
| "toInstanceArray j = [j]"

fun primary_key :: "json \<Rightarrow> ident option" where
  "primary_key (JNum n) = (if 0 \<le> n then Some (nat n) else None)"
| "primary_key j = None"

definition setLabels :: "db \<Rightarrow> transaction \<Rightarrow> ident \<Rightarrow> json \<Rightarrow> error + transaction" where
  "setLabels d t i j =
     (case those (map primary_key (toInstanceArray j)) of
        None \<Rightarrow> Inl ForeignKeyConstraintError
      | Some ls \<Rightarrow>
          if list_all (\<lambda>l. l \<in> set (labels d)) ls then Inr (t @ [SetLabels i ls])
          else Inl ForeignKeyConstraintError)"

text \<open>
  \<^verbatim>\<open>if (labelIdList) { await task.setLabels(JSON.parse(labelIdList), { transaction: t }); }\<close>
  A label list that is absent or the empty string is falsy.
\<close>

definition set_labels_if_supplied ::
  "(string \<Rightarrow> json option) \<Rightarrow> db \<Rightarrow> transaction \<Rightarrow> ident \<Rightarrow> string option \<Rightarrow> error + transaction" where
  "set_labels_if_supplied parse d t i labelIdList =
     (case labelIdList of
        None \<Rightarrow> Inr t
      | Some l \<Rightarrow>
          if l = [] then Inr t
          else (case parse l of
                  None \<Rightarrow> Inl SyntaxError
                | Some j \<Rightarrow> setLabels d t i j))"

subsection \<open>create\<close>

text \<open>
  The fields of \<^verbatim>\<open>taskData\<close> that remain in \<^verbatim>\<open>rest\<close>; \<open>None\<close> is a field the caller
  did not send.
\<close>

record task_fields =
  f_title :: "string option"
  f_isDone :: "bool option"
  f_position :: "int option"
  f_parentId :: "ident option"

definition assign :: "task \<Rightarrow> task_fields \<Rightarrow> task" where
  "assign r f =
     r\<lparr>title := (case f_title f of None \<Rightarrow> title r | Some x \<Rightarrow> x),
       isDone := (case f_isDone f of None \<Rightarrow> isDone r | Some x \<Rightarrow> x),
       position := (case f_position f of None \<Rightarrow> position r | Some x \<Rightarrow> x),
       parentId := (case f_parentId f of None \<Rightarrow> parentId r | Some x \<Rightarrow> Some x)\<rparr>"

record create_args =
  c_projectId :: ident
  c_sectionId :: ident
  c_userId :: ident
  c_labelIdList :: "string option"
  c_dueDate :: "string option"
  c_rest :: task_fields

text \<open>
  \<^verbatim>\<open>{ projectId, sectionId, dueDate, position: maxPosition + 1, ...rest }\<close>: the fields
  of \<open>rest\<close> come last and win. \<open>newId\<close> is the key the database gives the row. A column
  that gets no value has the default of the schema, which is not among the sources; the
  model takes the empty title, not done and no parent.
\<close>

definition new_task :: "ident \<Rightarrow> create_args \<Rightarrow> int \<Rightarrow> task" where
  "new_task newId a maxPosition =
     assign \<lparr>task_id = newId, title = [], isDone = False, position = maxPosition + 1,
              dueDate = c_dueDate a, sectionId = c_sectionId a, projectId = c_projectId a,
              parentId = None\<rparr> (c_rest a)"

definition create_callback ::
  "(string \<Rightarrow> json option) \<Rightarrow> ident \<Rightarrow> create_args \<Rightarrow> transaction \<Rightarrow> db
     \<Rightarrow> db \<times> transaction \<times> (error + task)" where
  "create_callback parse newId a t d =
     (case findByPk_section d (c_sectionId a) of
        None \<Rightarrow> (d, t, Inl (Error (NOT_FOUND_MESSAGE ''section'') NOT_FOUND_ERROR))
      | Some section \<Rightarrow>
          if \<not> isSectionOwner d (c_sectionId a) (c_userId a)
          then (d, t, Inl (Error (FORBIDDEN_MESSAGE_OF ''section'') NOT_FOUND_ERROR))
          else if section_projectId section \<noteq> c_projectId a
          then (d, t, Inl (Error (WRONG_RELATION_MESSAGE ''project, section'') BAD_REQUEST_ERROR))
          else
            let maxPosition =
                  foldl (\<lambda>m task. max m (position task)) 0 (section_tasks d (section_id section));
                task = new_task newId a maxPosition;
                t1 = t @ [InsertTask task]
            in (case set_labels_if_supplied parse d t1 newId (c_labelIdList a) of
                  Inl e \<Rightarrow> (d, t1, Inl e)
                | Inr t2 \<Rightarrow> (d, t2, Inr task)))"

definition create ::
  "(string \<Rightarrow> json option) \<Rightarrow> ident \<Rightarrow> db \<Rightarrow> create_args \<Rightarrow> db \<times> (error + bool)" where
  "create parse newId d a =
     (case findByPk_project d (c_projectId a) of
        None \<Rightarrow> (d, Inl (Error (NOT_FOUND_MESSAGE ''project'') NOT_FOUND_ERROR))
      | Some project \<Rightarrow>
          if \<not> isProjectOwner d (c_projectId a) (c_userId a)
          then (d, Inl (Error FORBIDDEN_MESSAGE FORBIDDEN_ERROR))
          else (case sequelize_transaction (create_callback parse newId a) d of
                  (d', Inl e) \<Rightarrow> (d', Inl e)
                | (d', Inr result) \<Rightarrow> (d', Inr True)))"

subsection \<open>update\<close>

record update_args =
  u_id :: ident
  u_labelIdList :: "string option"
  u_dueDate :: "string option"
  u_userId :: ident
  u_rest :: task_fields

text \<open>
  \<^verbatim>\<open>task.update({ dueDate, ...rest })\<close> is called without the transaction: the row is
  written and committed at once. A field that is undefined is left as it is.
\<close>

definition merge_fields :: "task \<Rightarrow> string option \<Rightarrow> task_fields \<Rightarrow> task" where
  "merge_fields r due f =
     assign (r\<lparr>dueDate := (case due of None \<Rightarrow> dueDate r | Some x \<Rightarrow> Some x)\<rparr>) f"

definition task_update :: "db \<Rightarrow> ident \<Rightarrow> string option \<Rightarrow> task_fields \<Rightarrow> db" where
  "task_update d i due f =
     d\<lparr>tasks := map (\<lambda>r. if task_id r = i then merge_fields r due f else r) (tasks d)\<rparr>"

text \<open>
  The callback of \<^verbatim>\<open>update\<close>. Its \<^verbatim>\<open>catch\<close> rolls the transaction back and throws the
  error again. \<^verbatim>\<open>task.save()\<close> after the update has no change left to write.
\<close>

definition update_callback ::
  "(string \<Rightarrow> json option) \<Rightarrow> update_args \<Rightarrow> transaction \<Rightarrow> db
     \<Rightarrow> db \<times> transaction \<times> (error + bool)" where
  "update_callback parse a t d =
     (case findByPk_task (t_commit d t) (u_id a) of
        None \<Rightarrow> (d, t_rollback t, Inl (Error (NOT_FOUND_MESSAGE ''task'') NOT_FOUND_ERROR))
      | Some task \<Rightarrow>
          if \<not> isTaskOwner d (u_id a) (u_userId a)
          then (d, t_rollback t, Inl (Error FORBIDDEN_MESSAGE FORBIDDEN_ERROR))
          else
            let d1 = task_update d (task_id task) (u_dueDate a) (u_rest a)
            in (case set_labels_if_supplied parse d1 t (task_id task) (u_labelIdList a) of
                  Inl e \<Rightarrow> (d1, t_rollback t, Inl e)
                | Inr t1 \<Rightarrow> (d1, t1, Inr True)))"

definition update ::
  "(string \<Rightarrow> json option) \<Rightarrow> db \<Rightarrow> update_args \<Rightarrow> db \<times> (error + bool)" where
  "update parse d a = sequelize_transaction (update_callback parse a) d"

subsection \<open>retrieveAll\<close>

text \<open>
  The query of \<^verbatim>\<open>retrieveAll\<close>: the tasks that are not done, joined with their project
  where its creator is the user (an inner join: a task without such a project is
  dropped) and with their sub-tasks (an outer join: a task without sub-tasks keeps one
  row, with no sub-task).
\<close>

definition main_rows :: "db \<Rightarrow> ident \<Rightarrow> task list" where
  "main_rows d userId =
     filter (\<lambda>t. \<not> isDone t \<and>
                 (case findByPk_project d (projectId t) of
                    None \<Rightarrow> False | Some p \<Rightarrow> creatorId p = userId))
       (tasks d)"

definition join_rows :: "db \<Rightarrow> task list \<Rightarrow> (task \<times> task option) list" where
  "join_rows d ts =
     concat (map (\<lambda>t. case sub_tasks d (task_id t) of
                         [] \<Rightarrow> [(t, None)]
                       | c # cs \<Rightarrow> map (\<lambda>s. (t, Some s)) (c # cs)) ts)"

text \<open>
  \<^verbatim>\<open>order: [[taskModel, 'position', 'ASC']]\<close>: the rows are ordered by the position of
  the sub-task. A row without sub-task has a null there and comes first; rows with the
  same position keep the order of the table (the database promises no order for them).
\<close>

definition order_rows :: "(task \<times> task option) list \<Rightarrow> (task \<times> task option) list" where
  "order_rows rows = sort_key (\<lambda>r. map_option position (snd r)) rows"

text \<open>
  The ORM folds the rows of one task into one object, in the order in which the tasks
  first appear; the sub-tasks of a task are in the order of its rows.
\<close>

definition children_of :: "ident \<Rightarrow> (task \<times> task option) list \<Rightarrow> task list" where
  "children_of i rows = List.map_filter snd (filter (\<lambda>r. task_id (fst r) = i) rows)"

fun group_rows :: "db \<Rightarrow> (task \<times> task option) list \<Rightarrow> populated list" where
  "group_rows d [] = []"
| "group_rows d (r # rows) =
     \<lparr>pt_task = fst r, pt_labels = labels_of d (task_id (fst r)),
      pt_tasks = map (with_labels d) (children_of (task_id (fst r)) (r # rows))\<rparr>
     # group_rows d (filter (\<lambda>q. task_id (fst q) \<noteq> task_id (fst r)) rows)"

definition retrieveAll :: "db \<Rightarrow> ident \<Rightarrow> populated list" where
  "retrieveAll d userId = group_rows d (order_rows (join_rows d (main_rows d userId)))"

section \<open>The user store of the web client\<close>

text \<open>
  The state of the store holds the user. The API answers with an object whose \<^verbatim>\<open>data\<close>
  is the user as the server sends it: the three fields, and whatever else the server
  adds (the extension of the record).
\<close>

record user =
  user_id :: string
  name :: string
  email :: string

record store_state =
  user :: user

record 'a response =
  data :: 'a

definition state :: store_state where
  "state = \<lparr>user = \<lparr>user_id = [], name = [], email = []\<rparr>\<rparr>"

definition SET_USER :: "store_state \<Rightarrow> 'a user_scheme \<Rightarrow> store_state" where
  "SET_USER st u = st\<lparr>user := \<lparr>user_id = user_id u, name = name u, email = email u\<rparr>\<rparr>"

text \<open>
  What the action does to the world outside, in order: a mutation committed, a dialog
  shown, a call of \<^verbatim>\<open>router.replace\<close> (whose rejection is swallowed by the empty
  \<^verbatim>\<open>catch\<close>). The text of the dialog is the one Korean sentence of the source, that the
  login failed.
\<close>

datatype alert_text = LOGIN_FAILED

datatype effect = Commit string | Alert alert_text | Replace string

record browser =
  store :: store_state
  pathname :: string
  effects :: "effect list"

definition commit_SET_USER :: "'a user_scheme \<Rightarrow> browser \<Rightarrow> browser" where
  "commit_SET_USER u w =
     w\<lparr>store := SET_USER (store w) u, effects := effects w @ [Commit ''SET_USER'']\<rparr>"

definition alert :: "alert_text \<Rightarrow> browser \<Rightarrow> browser" where
  "alert m w = w\<lparr>effects := effects w @ [Alert m]\<rparr>"

definition router_replace :: "string \<Rightarrow> browser \<Rightarrow> browser" where
  "router_replace p w = w\<lparr>effects := effects w @ [Replace p]\<rparr>"

text \<open>
  \<open>checkUser\<close>, given what \<^verbatim>\<open>userAPI.authorize()\<close> settles to: \<open>Inl\<close> a rejection,
  \<open>Inr\<close> the response.
\<close>

definition checkUser :: "'e + 'a user_scheme response \<Rightarrow> browser \<Rightarrow> browser" where
  "checkUser authorized w =
     (case authorized of
        Inr r \<Rightarrow>
          let w1 = commit_SET_USER (data r) w
          in if pathname w1 = ''/'' \<or> pathname w1 = ''/login''
             then router_replace ''/today'' w1
             else router_replace (pathname w1) w1
      | Inl err \<Rightarrow> router_replace ''/login'' (alert LOGIN_FAILED w))"

section \<open>Data for the examples\<close>

text \<open>
  A parser for the examples: it reads an array of numerals without sign, written with
  no space (\<^verbatim>\<open>[]\<close>, \<^verbatim>\<open>[7]\<close>, \<^verbatim>\<open>[1,20]\<close>), to the value \<^verbatim>\<open>JSON.parse\<close> gives it, and
  rejects every other string. On the strings of the examples it is \<^verbatim>\<open>JSON.parse\<close>.
\<close>

definition digit :: "char \<Rightarrow> bool" where
  "digit c \<longleftrightarrow> c \<in> set ''0123456789''"

definition number_literal :: "string \<Rightarrow> bool" where
  "number_literal s \<longleftrightarrow> s \<noteq> [] \<and> list_all digit s \<and> (length s = 1 \<or> take 1 s \<noteq> ''0'')"

definition number_value :: "string \<Rightarrow> int" where
  "number_value s = foldl (\<lambda>n c. 10 * n + (int (of_char c) - 48)) 0 s"

fun split_commas :: "string \<Rightarrow> string list" where
  "split_commas [] = [[]]"
| "split_commas (c # cs) =
     (if c = CHR '','' then [] # split_commas cs
      else (case split_commas cs of [] \<Rightarrow> [[c]] | w # ws \<Rightarrow> (c # w) # ws))"

definition parse_id_array :: "string \<Rightarrow> json option" where
  "parse_id_array s =
     (case s of
        [] \<Rightarrow> None
      | c # cs \<Rightarrow>
          if c = CHR ''['' \<and> cs \<noteq> [] \<and> last cs = CHR '']'' then
            (let body = butlast cs
             in if body = [] then Some (JArr [])
                else if list_all number_literal (split_commas body)
                then Some (JArr (map (\<lambda>w. JNum (number_value w)) (split_commas body)))
                else None)
          else None)"

text \<open>
  A database for the examples. User 10 owns the projects 1 and 2, user 20 the project 3.
  The tasks 1 and 2 are open, in section 1 at the positions 2 and 1; each has one
  finished sub-task (3 under 1 at position 1, 4 under 2 at position 2). Task 5 is the
  only task of section 3, at the position -3. Section 4 has no task.
\<close>

definition sample_db :: db where
  "sample_db =
     \<lparr>tasks =
        [\<lparr>task_id = 1, title = ''a'', isDone = False, position = 2, dueDate = None,
          sectionId = 1, projectId = 1, parentId = None\<rparr>,
         \<lparr>task_id = 2, title = ''b'', isDone = False, position = 1, dueDate = None,
          sectionId = 1, projectId = 1, parentId = None\<rparr>,
         \<lparr>task_id = 3, title = ''c'', isDone = True, position = 1, dueDate = None,
          sectionId = 1, projectId = 1, parentId = Some 1\<rparr>,
         \<lparr>task_id = 4, title = ''d'', isDone = True, position = 2, dueDate = None,
          sectionId = 1, projectId = 1, parentId = Some 2\<rparr>,
         \<lparr>task_id = 5, title = ''e'', isDone = False, position = - 3, dueDate = None,
          sectionId = 3, projectId = 3, parentId = None\<rparr>],
      sections =
        [\<lparr>section_id = 1, section_projectId = 1\<rparr>, \<lparr>section_id = 2, section_projectId = 2\<rparr>,
         \<lparr>section_id = 3, section_projectId = 3\<rparr>, \<lparr>section_id = 4, section_projectId = 1\<rparr>],
      projects =
        [\<lparr>project_id = 1, creatorId = 10\<rparr>, \<lparr>project_id = 2, creatorId = 10\<rparr>,
         \<lparr>project_id = 3, creatorId = 20\<rparr>],
      labels = [7, 8],
      task_labels = [(1, 7)]\<rparr>"

definition no_fields :: task_fields where
  "no_fields = \<lparr>f_title = None, f_isDone = None, f_position = None, f_parentId = None\<rparr>"

section \<open>Properties of the task service\<close>

subsection \<open>Rows by primary key\<close>

lemma count_by_key:
  "distinct (map task_id ts) \<Longrightarrow>
   length (filter (\<lambda>t. task_id t = i) ts) = (if find (\<lambda>t. task_id t = i) ts = None then 0 else 1)"
proof (induction ts)
  case Nil
  show ?case by simp
next
  case (Cons t ts)
  show ?case
  proof (cases "task_id t = i")
    case True
    from Cons.prems have "\<forall>x\<in>set ts. task_id x \<noteq> task_id t"
      by (simp add: image_iff) metis
    with True have "filter (\<lambda>t. task_id t = i) ts = []"
      by (simp add: filter_empty_conv)
    with True show ?thesis by simp
  next
    case False
    with Cons show ?thesis by simp
  qed
qed

lemma find_filter_other:
  "j \<noteq> i \<Longrightarrow>
   find (\<lambda>t. task_id t = j) (filter (\<lambda>t. task_id t \<noteq> i) ts) = find (\<lambda>t. task_id t = j) ts"
  by (induction ts) auto

lemma find_filter_same:
  "find (\<lambda>t. task_id t = i) (filter (\<lambda>t. task_id t \<noteq> i) ts) = None"
  by (induction ts) auto

lemma length_filter_split:
  "length (filter (\<lambda>t. task_id t \<noteq> i) ts) + length (filter (\<lambda>t. task_id t = i) ts) = length ts"
  by (induction ts) auto

lemma findByPk_section_id: "findByPk_section d i = Some s \<Longrightarrow> section_id s = i"
  by (auto simp: findByPk_section_def find_Some_iff)

lemma findByPk_task_id: "findByPk_task d i = Some t \<Longrightarrow> task_id t = i"
  by (auto simp: findByPk_task_def find_Some_iff)

lemma sample_db_keys: "primary_keys sample_db"
  by (simp add: primary_keys_def sample_db_def)

text \<open>The operations that write keep the primary keys unique.\<close>

lemma remove_keys: "primary_keys d \<Longrightarrow> primary_keys (fst (remove d i))"
  by (simp add: primary_keys_def remove_def destroy_def distinct_map_filter)

lemma map_task_id_update:
  "map (task_id \<circ> (\<lambda>r. if task_id r = i then merge_fields r due f else r)) ts = map task_id ts"
  by (induction ts) (simp_all add: merge_fields_def assign_def)

lemma update_keys: "primary_keys d \<Longrightarrow> primary_keys (fst (update parse d a))"
  by (auto simp: primary_keys_def update_def sequelize_transaction_def update_callback_def
        task_update_def map_task_id_update Let_def t_commit_def t_rollback_def
        set_labels_if_supplied_def setLabels_def
        split: option.splits if_splits sum.splits)

lemma create_keys:
  "primary_keys d \<Longrightarrow> findByPk_task d newId = None \<Longrightarrow> primary_keys (fst (create parse newId d a))"
  by (auto simp: primary_keys_def create_def sequelize_transaction_def create_callback_def
        Let_def t_commit_def set_labels_if_supplied_def setLabels_def new_task_def assign_def
        findByPk_task_def find_None_iff
        split: option.splits if_splits sum.splits)

subsection \<open>Ownership is checked by retrieveById and update\<close>

text \<open>
  C4. When the task with the given id exists and the project it belongs to has a creator
  other than the requesting user, \<open>retrieveById\<close> and \<open>update\<close> both fail with the
  error whose status is the Forbidden code (403); \<open>update\<close> leaves the database as it
  was.
\<close>

theorem forbidden_for_other_creator:
  assumes "findByPk_task d i = Some t"
    and "findByPk_project d (projectId t) = Some p"
    and "creatorId p \<noteq> userId"
  shows "retrieveById d i userId = Inl (Error FORBIDDEN_MESSAGE FORBIDDEN_ERROR) \<and>
         update parse d \<lparr>u_id = i, u_labelIdList = l, u_dueDate = due, u_userId = userId, u_rest = f\<rparr>
           = (d, Inl (Error FORBIDDEN_MESSAGE FORBIDDEN_ERROR)) \<and>
         status (Error FORBIDDEN_MESSAGE FORBIDDEN_ERROR) = Some FORBIDDEN_ERROR \<and>
         http_status FORBIDDEN_ERROR = 403"
proof -
  from assms have owner: "\<not> isTaskOwner d i userId"
    by (simp add: isTaskOwner_def isProjectOwner_def)
  have "retrieveById d i userId = Inl (Error FORBIDDEN_MESSAGE FORBIDDEN_ERROR)"
    using assms(1) owner by (simp add: retrieveById_def)
  moreover have "update parse d \<lparr>u_id = i, u_labelIdList = l, u_dueDate = due, u_userId = userId, u_rest = f\<rparr>
      = (d, Inl (Error FORBIDDEN_MESSAGE FORBIDDEN_ERROR))"
    using assms(1) owner
    by (simp add: update_def sequelize_transaction_def update_callback_def t_commit_def)
  ultimately show ?thesis by simp
qed

theorem forbidden_for_other_creator_witness:
  "retrieveById sample_db 1 20 = Inl (Error FORBIDDEN_MESSAGE FORBIDDEN_ERROR) \<and>
   update parse_id_array sample_db
     \<lparr>u_id = 1, u_labelIdList = None, u_dueDate = None, u_userId = 20, u_rest = no_fields\<rparr>
     = (sample_db, Inl (Error FORBIDDEN_MESSAGE FORBIDDEN_ERROR))"
proof -
  have t: "findByPk_task sample_db 1 = Some (hd (tasks sample_db))"
    by (simp add: findByPk_task_def sample_db_def)
  have p: "findByPk_project sample_db (projectId (hd (tasks sample_db))) = Some (hd (projects sample_db))"
    by (simp add: findByPk_project_def sample_db_def)
  have c: "creatorId (hd (projects sample_db)) \<noteq> 20"
    by (simp add: sample_db_def)
  show ?thesis
    using forbidden_for_other_creator [OF t p c] by simp
qed

subsection \<open>The guards of create\<close>

text \<open>
  C2, as the specification states it, does not hold: the ownership of the section is
  checked before the relation. User 20 owns project 3; section 1 exists and belongs to
  project 1, which is not the project 3 that is supplied, and user 20 does not own it.
  \<open>create\<close> fails with the status NOT_FOUND_ERROR and the Forbidden message of the
  section, not with the Bad Request of the wrong relation.
\<close>

theorem create_wrong_relation_not_owner:
  "map_option section_projectId (findByPk_section sample_db 1) = Some 1 \<and>
   create parse_id_array 6 sample_db
     \<lparr>c_projectId = 3, c_sectionId = 1, c_userId = 20, c_labelIdList = None,
      c_dueDate = None, c_rest = no_fields\<rparr>
     = (sample_db, Inl (Error (FORBIDDEN_MESSAGE_OF ''section'') NOT_FOUND_ERROR))"
  by code_simp

text \<open>
  C2, amended. When the supplied project exists and the caller owns it, and the section
  exists, the caller owns it and its \<open>projectId\<close> is other than the supplied one,
  \<open>create\<close> fails with the Bad Request (400) of the wrong relation, and writes nothing.
  The proof does not look into the ownership predicates.
\<close>

theorem create_wrong_relation:
  assumes "findByPk_project d (c_projectId a) = Some p"
    and "isProjectOwner d (c_projectId a) (c_userId a)"
    and "findByPk_section d (c_sectionId a) = Some s"
    and "isSectionOwner d (c_sectionId a) (c_userId a)"
    and "section_projectId s \<noteq> c_projectId a"
  shows "create parse newId d a
           = (d, Inl (Error (WRONG_RELATION_MESSAGE ''project, section'') BAD_REQUEST_ERROR)) \<and>
         status (Error (WRONG_RELATION_MESSAGE ''project, section'') BAD_REQUEST_ERROR)
           = Some BAD_REQUEST_ERROR \<and>
         http_status BAD_REQUEST_ERROR = 400"
  using assms
  by (simp add: create_def sequelize_transaction_def create_callback_def)

theorem create_wrong_relation_witness:
  "create parse_id_array 6 sample_db
     \<lparr>c_projectId = 1, c_sectionId = 2, c_userId = 10, c_labelIdList = None,
      c_dueDate = None, c_rest = no_fields\<rparr>
     = (sample_db, Inl (Error (WRONG_RELATION_MESSAGE ''project, section'') BAD_REQUEST_ERROR))"
proof -
  let ?a = "\<lparr>c_projectId = 1, c_sectionId = 2, c_userId = 10, c_labelIdList = None,
      c_dueDate = None, c_rest = no_fields\<rparr>"
  have e: "findByPk_project sample_db (c_projectId ?a) = Some \<lparr>project_id = 1, creatorId = 10\<rparr>"
    by code_simp
  have p: "isProjectOwner sample_db (c_projectId ?a) (c_userId ?a)"
    by code_simp
  have s: "findByPk_section sample_db (c_sectionId ?a) = Some \<lparr>section_id = 2, section_projectId = 2\<rparr>"
    by code_simp
  have so: "isSectionOwner sample_db (c_sectionId ?a) (c_userId ?a)"
    by code_simp
  have ne: "section_projectId \<lparr>section_id = 2, section_projectId = 2\<rparr> \<noteq> c_projectId ?a"
    by simp
  from create_wrong_relation [OF e p s so ne] show ?thesis by simp
qed

text \<open>
  C9, as stated for every call, does not hold: the project is checked first. Section 1
  exists and user 20 does not own it; with project 1 supplied, which user 20 does not
  own either, \<open>create\<close> fails with the status FORBIDDEN_ERROR.
\<close>

theorem create_not_owner_of_project:
  "findByPk_section sample_db 1 = Some \<lparr>section_id = 1, section_projectId = 1\<rparr> \<and>
   isSectionOwner sample_db 1 20 = False \<and>
   create parse_id_array 6 sample_db
     \<lparr>c_projectId = 1, c_sectionId = 1, c_userId = 20, c_labelIdList = None,
      c_dueDate = None, c_rest = no_fields\<rparr>
     = (sample_db, Inl (Error FORBIDDEN_MESSAGE FORBIDDEN_ERROR))"
  by code_simp

text \<open>
  C9, amended. When the supplied project exists and the caller owns it, and the section
  exists but the caller does not own it, \<open>create\<close> fails with an error whose status is
  the NotFound code (404) and whose message is the Forbidden message of the section.
\<close>

theorem create_unowned_section:
  assumes "findByPk_project d (c_projectId a) = Some p"
    and "isProjectOwner d (c_projectId a) (c_userId a)"
    and "findByPk_section d (c_sectionId a) = Some s"
    and "\<not> isSectionOwner d (c_sectionId a) (c_userId a)"
  shows "create parse newId d a
           = (d, Inl (Error (FORBIDDEN_MESSAGE_OF ''section'') NOT_FOUND_ERROR)) \<and>
         status (Error (FORBIDDEN_MESSAGE_OF ''section'') NOT_FOUND_ERROR) = Some NOT_FOUND_ERROR \<and>
         message (Error (FORBIDDEN_MESSAGE_OF ''section'') NOT_FOUND_ERROR)
           = Some (FORBIDDEN_MESSAGE_OF ''section'') \<and>
         http_status NOT_FOUND_ERROR = 404"
  using assms
  by (simp add: create_def sequelize_transaction_def create_callback_def)

theorem create_unowned_section_witness:
  "create parse_id_array 6 sample_db
     \<lparr>c_projectId = 3, c_sectionId = 4, c_userId = 20, c_labelIdList = None,
      c_dueDate = None, c_rest = no_fields\<rparr>
     = (sample_db, Inl (Error (FORBIDDEN_MESSAGE_OF ''section'') NOT_FOUND_ERROR))"
proof -
  let ?a = "\<lparr>c_projectId = 3, c_sectionId = 4, c_userId = 20, c_labelIdList = None,
      c_dueDate = None, c_rest = no_fields\<rparr>"
  have e: "findByPk_project sample_db (c_projectId ?a) = Some \<lparr>project_id = 3, creatorId = 20\<rparr>"
    by code_simp
  have p: "isProjectOwner sample_db (c_projectId ?a) (c_userId ?a)"
    by code_simp
  have s: "findByPk_section sample_db (c_sectionId ?a) = Some \<lparr>section_id = 4, section_projectId = 1\<rparr>"
    by code_simp
  have so: "\<not> isSectionOwner sample_db (c_sectionId ?a) (c_userId ?a)"
    by code_simp
  from create_unowned_section [OF e p s so] show ?thesis by simp
qed

subsection \<open>The position of a new task\<close>

lemma maxPosition_Max:
  "foldl (\<lambda>m t. max m (position t)) m0 ts = Max (insert m0 (position ` set ts))"
proof (induction ts arbitrary: m0)
  case Nil
  show ?case by simp
next
  case (Cons t ts)
  have "Max (insert (max m0 (position t)) (position ` set ts))
      = Max (insert m0 (insert (position t) (position ` set ts)))"
    by (cases "set ts = {}") (simp_all add: max.assoc)
  with Cons.IH [of "max m0 (position t)"] show ?case by simp
qed

lemma Max_insert_zero:
  assumes "finite S" and "x \<in> S" and "(0::int) \<le> x"
  shows "Max (insert 0 S) = Max S"
proof -
  from assms have "S \<noteq> {}" by auto
  with assms(1) have "Max (insert 0 S) = max 0 (Max S)"
    by simp
  moreover from assms have "0 \<le> Max S"
    by (meson Max_ge order_trans)
  ultimately show ?thesis by simp
qed

lemma create_inserts:
  assumes "create parse newId d a = (d', Inr True)"
  shows "\<exists>t. tasks d' = tasks d @ [t] \<and> task_id t = newId \<and> sectionId t = c_sectionId a \<and>
           position t =
             (case f_position (c_rest a) of
                Some p \<Rightarrow> p
              | None \<Rightarrow> 1 + Max (insert 0 (position ` set (section_tasks d (c_sectionId a)))))"
proof -
  let ?t = "new_task newId a
              (foldl (\<lambda>m task. max m (position task)) 0 (section_tasks d (c_sectionId a)))"
  from assms obtain s t2 where s: "findByPk_section d (c_sectionId a) = Some s"
    and t2: "set_labels_if_supplied parse d [InsertTask ?t] newId (c_labelIdList a) = Inr t2"
    and d': "d' = t_commit d t2"
    by (auto simp: create_def sequelize_transaction_def create_callback_def Let_def
          findByPk_section_id
          split: option.splits if_splits sum.splits prod.splits)
  from t2 have "t2 = [InsertTask ?t] \<or> (\<exists>ls. t2 = [InsertTask ?t, SetLabels newId ls])"
    by (auto simp: set_labels_if_supplied_def setLabels_def split: option.splits if_splits)
  with d' have "tasks d' = tasks d @ [?t]"
    by (auto simp: t_commit_def)
  moreover have "task_id ?t = newId \<and> sectionId ?t = c_sectionId a"
    by (simp add: new_task_def assign_def)
  moreover have "position ?t =
             (case f_position (c_rest a) of
                Some p \<Rightarrow> p
              | None \<Rightarrow> 1 + Max (insert 0 (position ` set (section_tasks d (c_sectionId a)))))"
    by (simp add: new_task_def assign_def maxPosition_Max split: option.splits)
  ultimately show ?thesis by blast
qed

text \<open>
  C3, as the specification states it, does not hold, in two ways. The maximum is taken
  from 0 upwards: section 3 has one task, at the position -3, and the task created there
  gets the position 1, not -2. And a position in the task data wins over the computed
  one: with the position 7 in the data, the task created in section 1, whose greatest
  position is 2, gets the position 7, not 3.
\<close>

theorem create_position_not_max_plus_one:
  "snd (create parse_id_array 6 sample_db
        \<lparr>c_projectId = 3, c_sectionId = 3, c_userId = 20, c_labelIdList = None,
         c_dueDate = None, c_rest = no_fields\<rparr>) = Inr True \<and>
   map position (section_tasks sample_db 3) = [- 3] \<and>
   position (last (tasks (fst (create parse_id_array 6 sample_db
        \<lparr>c_projectId = 3, c_sectionId = 3, c_userId = 20, c_labelIdList = None,
         c_dueDate = None, c_rest = no_fields\<rparr>)))) = 1 \<and>
   snd (create parse_id_array 6 sample_db
        \<lparr>c_projectId = 1, c_sectionId = 1, c_userId = 10, c_labelIdList = None,
         c_dueDate = None, c_rest = no_fields\<lparr>f_position := Some 7\<rparr>\<rparr>) = Inr True \<and>
   Max (position ` set (section_tasks sample_db 1)) = 2 \<and>
   position (last (tasks (fst (create parse_id_array 6 sample_db
        \<lparr>c_projectId = 1, c_sectionId = 1, c_userId = 10, c_labelIdList = None,
         c_dueDate = None, c_rest = no_fields\<lparr>f_position := Some 7\<rparr>\<rparr>)))) = 7"
  by code_simp

text \<open>
  C3, amended. A successful \<open>create\<close> appends one task, in the target section. A
  position carried in the task data is stored as it is. Without one, the position is
  1 + the maximum of 0 and the positions of the tasks of the section: it is 1 when the
  section has no tasks, and 1 + the maximum position when some task of the section has a
  position that is not negative.
\<close>

theorem create_position:
  assumes "create parse newId d a = (d', Inr True)"
  shows "\<exists>t. tasks d' = tasks d @ [t] \<and> task_id t = newId \<and> sectionId t = c_sectionId a \<and>
           position t =
             (case f_position (c_rest a) of
                Some p \<Rightarrow> p
              | None \<Rightarrow> 1 + Max (insert 0 (position ` set (section_tasks d (c_sectionId a))))) \<and>
           (f_position (c_rest a) = None \<and> section_tasks d (c_sectionId a) = []
              \<longrightarrow> position t = 1) \<and>
           (f_position (c_rest a) = None \<and>
            (\<exists>s\<in>set (section_tasks d (c_sectionId a)). 0 \<le> position s)
              \<longrightarrow> position t = 1 + Max (position ` set (section_tasks d (c_sectionId a))))"
proof -
  from create_inserts [OF assms] obtain t where t: "tasks d' = tasks d @ [t]" "task_id t = newId"
    "sectionId t = c_sectionId a"
    "position t =
             (case f_position (c_rest a) of
                Some p \<Rightarrow> p
              | None \<Rightarrow> 1 + Max (insert 0 (position ` set (section_tasks d (c_sectionId a)))))"
    by blast
  have e: "f_position (c_rest a) = None \<and> section_tasks d (c_sectionId a) = []
              \<longrightarrow> position t = 1"
    using t(4) by simp
  have n: "f_position (c_rest a) = None \<and>
            (\<exists>s\<in>set (section_tasks d (c_sectionId a)). 0 \<le> position s)
              \<longrightarrow> position t = 1 + Max (position ` set (section_tasks d (c_sectionId a)))"
  proof
    assume h: "f_position (c_rest a) = None \<and>
            (\<exists>s\<in>set (section_tasks d (c_sectionId a)). 0 \<le> position s)"
    then obtain s where "s \<in> set (section_tasks d (c_sectionId a))" "0 \<le> position s"
      by blast
    then have "Max (insert 0 (position ` set (section_tasks d (c_sectionId a))))
        = Max (position ` set (section_tasks d (c_sectionId a)))"
      by (intro Max_insert_zero [of _ "position s"]) auto
    with h t(4) show "position t = 1 + Max (position ` set (section_tasks d (c_sectionId a)))"
      by simp
  qed
  from t e n show ?thesis by blast
qed

theorem create_position_witness:
  "snd (create parse_id_array 6 sample_db
        \<lparr>c_projectId = 1, c_sectionId = 1, c_userId = 10, c_labelIdList = Some ''[7]'',
         c_dueDate = None, c_rest = no_fields\<rparr>) = Inr True \<and>
   (\<exists>t. tasks (fst (create parse_id_array 6 sample_db
        \<lparr>c_projectId = 1, c_sectionId = 1, c_userId = 10, c_labelIdList = Some ''[7]'',
         c_dueDate = None, c_rest = no_fields\<rparr>)) = tasks sample_db @ [t] \<and> position t = 3)"
proof -
  let ?a = "\<lparr>c_projectId = 1, c_sectionId = 1, c_userId = 10, c_labelIdList = Some ''[7]'',
         c_dueDate = None, c_rest = no_fields\<rparr>"
  have ok: "snd (create parse_id_array 6 sample_db ?a) = Inr True"
    by code_simp
  then have h: "create parse_id_array 6 sample_db ?a
      = (fst (create parse_id_array 6 sample_db ?a), Inr True)"
    by (metis prod.collapse)
  have m: "Max (insert 0 (position ` set (section_tasks sample_db 1))) = 2"
    by code_simp
  from create_position [OF h] m ok show ?thesis
    by (auto simp: no_fields_def)
qed

subsection \<open>The label list must parse\<close>

text \<open>
  C10. With a label list that is supplied (a string that is not empty) and that
  \<^verbatim>\<open>JSON.parse\<close> rejects, the step that sets the labels throws the SyntaxError, and
  neither \<open>create\<close> nor \<open>update\<close> returns a success boolean: they succeed only with a
  label list that parses.
\<close>

theorem label_list_must_parse:
  assumes "l \<noteq> []" and "parse l = None"
  shows "set_labels_if_supplied parse d t i (Some l) = Inl SyntaxError \<and>
         (\<forall>b. snd (create parse newId d (a\<lparr>c_labelIdList := Some l\<rparr>)) \<noteq> Inr b) \<and>
         (\<forall>b. snd (update parse d (u\<lparr>u_labelIdList := Some l\<rparr>)) \<noteq> Inr b)"
proof -
  have step: "\<And>d t i. set_labels_if_supplied parse d t i (Some l) = Inl SyntaxError"
    using assms by (simp add: set_labels_if_supplied_def)
  have "\<forall>b. snd (create parse newId d (a\<lparr>c_labelIdList := Some l\<rparr>)) \<noteq> Inr b"
    by (simp add: create_def sequelize_transaction_def create_callback_def step Let_def
          split: option.splits)
  moreover have "\<forall>b. snd (update parse d (u\<lparr>u_labelIdList := Some l\<rparr>)) \<noteq> Inr b"
    by (simp add: update_def sequelize_transaction_def update_callback_def step Let_def
          split: option.splits)
  ultimately show ?thesis using step by simp
qed

theorem label_list_must_parse_witness:
  "set_labels_if_supplied parse_id_array sample_db [] 1 (Some ''not json'') = Inl SyntaxError \<and>
   snd (create parse_id_array 6 sample_db
     \<lparr>c_projectId = 1, c_sectionId = 1, c_userId = 10, c_labelIdList = Some ''not json'',
      c_dueDate = None, c_rest = no_fields\<rparr>) \<noteq> Inr True \<and>
   snd (update parse_id_array sample_db
     \<lparr>u_id = 1, u_labelIdList = Some ''not json'', u_dueDate = None, u_userId = 10,
      u_rest = no_fields\<rparr>) \<noteq> Inr True"
proof -
  have h1: "''not json'' \<noteq> []" by simp
  have h2: "parse_id_array ''not json'' = None" by code_simp
  from label_list_must_parse [where l = "''not json''" and parse = parse_id_array
      and d = sample_db and t = "[]" and i = 1 and newId = 6
      and a = "\<lparr>c_projectId = 1, c_sectionId = 1, c_userId = 10, c_labelIdList = None,
        c_dueDate = None, c_rest = no_fields\<rparr>"
      and u = "\<lparr>u_id = 1, u_labelIdList = None, u_dueDate = None, u_userId = 10, u_rest = no_fields\<rparr>",
      OF h1 h2]
  show ?thesis by simp
qed

subsection \<open>What a failed update leaves behind\<close>

text \<open>
  A failed \<open>update\<close> never changes the label associations: they were written inside the
  transaction. The database is either as it was, or it has the fields of the call merged
  into the task: the merge was written outside the transaction.
\<close>

lemma update_failure_state:
  assumes "snd (update parse d a) = Inl e"
  shows "task_labels (fst (update parse d a)) = task_labels d \<and>
         (fst (update parse d a) = d \<or>
          fst (update parse d a) = task_update d (u_id a) (u_dueDate a) (u_rest a))"
  using assms
  by (auto simp: update_def sequelize_transaction_def update_callback_def t_commit_def
        task_update_def Let_def findByPk_task_id
        split: option.splits if_splits sum.splits)

text \<open>
  C1. The claim fails on the code. User 10 owns task 1, whose title is \<^verbatim>\<open>a\<close>. The call
  carries the title \<^verbatim>\<open>changed\<close> and a label list that is not JSON. The fields are merged
  first, without the transaction; then \<^verbatim>\<open>JSON.parse\<close> throws, the transaction is rolled
  back and the error is thrown on. The task keeps the new title.
\<close>

theorem update_keeps_merge_after_failure:
  "snd (update parse_id_array sample_db
          \<lparr>u_id = 1, u_labelIdList = Some ''not json'', u_dueDate = None, u_userId = 10,
           u_rest = no_fields\<lparr>f_title := Some ''changed''\<rparr>\<rparr>) = Inl SyntaxError \<and>
   map_option title (findByPk_task sample_db 1) = Some ''a'' \<and>
   map_option title (findByPk_task (fst (update parse_id_array sample_db
          \<lparr>u_id = 1, u_labelIdList = Some ''not json'', u_dueDate = None, u_userId = 10,
           u_rest = no_fields\<lparr>f_title := Some ''changed''\<rparr>\<rparr>)) 1) = Some ''changed''"
  by code_simp

subsection \<open>remove\<close>

text \<open>
  C5. \<open>remove\<close> takes an id and nothing of the user, and it has no error among its
  results: it deletes by id without any check. In a database whose primary keys are
  unique it returns 1 when a task with the id exists and 0 when none does; afterwards no
  task has the id, every other task is found as before, and the table is shorter by the
  number returned.
\<close>

theorem remove_deletes_by_id:
  assumes "primary_keys d"
  shows "snd (remove d i) = (if findByPk_task d i = None then 0 else 1) \<and>
         findByPk_task (fst (remove d i)) i = None \<and>
         (\<forall>j. j \<noteq> i \<longrightarrow> findByPk_task (fst (remove d i)) j = findByPk_task d j) \<and>
         length (tasks (fst (remove d i))) + snd (remove d i) = length (tasks d) \<and>
         sections (fst (remove d i)) = sections d \<and> projects (fst (remove d i)) = projects d"
proof -
  from assms have dist: "distinct (map task_id (tasks d))"
    by (simp add: primary_keys_def)
  have "snd (remove d i) = (if findByPk_task d i = None then 0 else 1)"
    using count_by_key [OF dist, of i] by (simp add: remove_def destroy_def findByPk_task_def)
  moreover have "findByPk_task (fst (remove d i)) i = None"
    by (simp add: remove_def destroy_def findByPk_task_def find_filter_same)
  moreover have "\<forall>j. j \<noteq> i \<longrightarrow> findByPk_task (fst (remove d i)) j = findByPk_task d j"
    by (simp add: remove_def destroy_def findByPk_task_def find_filter_other)
  moreover have "length (tasks (fst (remove d i))) + snd (remove d i) = length (tasks d)"
    by (simp add: remove_def destroy_def length_filter_split)
  moreover have "sections (fst (remove d i)) = sections d \<and> projects (fst (remove d i)) = projects d"
    by (simp add: remove_def destroy_def)
  ultimately show ?thesis by blast
qed

theorem remove_deletes_by_id_witness:
  "snd (remove sample_db 1) = 1 \<and> snd (remove sample_db 9) = 0 \<and>
   length (tasks (fst (remove sample_db 1))) = 4 \<and> length (tasks (fst (remove sample_db 9))) = 5"
  using remove_deletes_by_id [OF sample_db_keys, of 1] remove_deletes_by_id [OF sample_db_keys, of 9]
  by (simp add: findByPk_task_def sample_db_def)

subsection \<open>retrieveAll\<close>

text \<open>The rows of one task, and how ordering and grouping treat them.\<close>

lemma children_of_append:
  "children_of i (xs @ ys) = children_of i xs @ children_of i ys"
  by (simp add: children_of_def map_filter_def)

lemma children_of_filter_other:
  "i \<noteq> j \<Longrightarrow> children_of i (filter (\<lambda>q. task_id (fst q) \<noteq> j) rows) = children_of i rows"
proof -
  assume "i \<noteq> j"
  then have "filter (\<lambda>r. task_id (fst r) = i) (filter (\<lambda>q. task_id (fst q) \<noteq> j) rows)
      = filter (\<lambda>r. task_id (fst r) = i) rows"
    by (induction rows) auto
  then show ?thesis by (simp add: children_of_def)
qed

lemma children_of_Cons_other:
  "task_id (fst r) \<noteq> i \<Longrightarrow> children_of i (r # rows) = children_of i rows"
  by (simp add: children_of_def)

lemma group_rows_ids:
  "set (map (task_id \<circ> pt_task) (group_rows d rows)) = set (map (task_id \<circ> fst) rows) \<and>
   distinct (map (task_id \<circ> pt_task) (group_rows d rows))"
proof (induction d rows rule: group_rows.induct)
  case (1 d)
  show ?case by simp
next
  case (2 d r rows)
  then show ?case by auto
qed

lemma group_rows_entries:
  "e \<in> set (group_rows d rows) \<Longrightarrow>
   \<exists>q\<in>set rows. pt_task e = fst q \<and> pt_labels e = labels_of d (task_id (fst q)) \<and>
     pt_tasks e = map (with_labels d) (children_of (task_id (fst q)) rows)"
proof (induction d rows rule: group_rows.induct)
  case (1 d)
  then show ?case by simp
next
  case (2 d r rows)
  show ?case
  proof (cases "e \<in> set (group_rows d (filter (\<lambda>q. task_id (fst q) \<noteq> task_id (fst r)) rows))")
    case True
    from "2.IH" [OF True] obtain q where q: "q \<in> set rows" "task_id (fst q) \<noteq> task_id (fst r)"
      and e: "pt_task e = fst q" "pt_labels e = labels_of d (task_id (fst q))"
        "pt_tasks e = map (with_labels d)
           (children_of (task_id (fst q)) (filter (\<lambda>q. task_id (fst q) \<noteq> task_id (fst r)) rows))"
      by auto
    from q(2) have "children_of (task_id (fst q)) (filter (\<lambda>q. task_id (fst q) \<noteq> task_id (fst r)) rows)
        = children_of (task_id (fst q)) (r # rows)"
      by (simp add: children_of_filter_other children_of_Cons_other)
    with q e show ?thesis by auto
  next
    case False
    with "2.prems" show ?thesis by auto
  qed
qed

lemma sorted_map_filter_snd:
  "sorted (map (\<lambda>r. map_option position (snd r)) rows) \<Longrightarrow>
   sorted (map position (List.map_filter snd rows))"
proof (induction rows)
  case Nil
  show ?case by (simp add: map_filter_simps)
next
  case (Cons r rows)
  then have IH: "sorted (map position (List.map_filter snd rows))" by simp
  show ?case
  proof (cases "snd r")
    case None
    with IH show ?thesis by (simp add: map_filter_simps)
  next
    case (Some c)
    have "\<forall>c'\<in>set (List.map_filter snd rows). position c \<le> position c'"
    proof
      fix c' assume "c' \<in> set (List.map_filter snd rows)"
      then obtain q where "q \<in> set rows" "snd q = Some c'"
        by (auto simp: map_filter_def)
      with Cons.prems Some have "Some (position c) \<le> Some (position c')"
        by force
      then show "position c \<le> position c'" by simp
    qed
    with IH Some show ?thesis by (simp add: map_filter_simps)
  qed
qed

lemma sorted_children_of_order_rows:
  "sorted (map position (children_of i (order_rows rows)))"
proof -
  have "sorted (map (\<lambda>r. map_option position (snd r)) (order_rows rows))"
    by (simp add: order_rows_def)
  then have "sorted (map (\<lambda>r. map_option position (snd r))
               (filter (\<lambda>r. task_id (fst r) = i) (order_rows rows)))"
    by (simp add: sorted_filter)
  then show ?thesis
    unfolding children_of_def by (rule sorted_map_filter_snd)
qed

lemma mset_children_of_order_rows:
  "mset (children_of i (order_rows rows)) = mset (children_of i rows)"
  by (simp add: children_of_def order_rows_def map_filter_def)

lemma children_of_join_rows:
  "children_of i (join_rows d ts)
     = concat (map (\<lambda>t. if task_id t = i then sub_tasks d i else []) ts)"
proof (induction ts)
  case Nil
  show ?case by (simp add: join_rows_def children_of_def map_filter_simps)
next
  case (Cons t ts)
  have one: "children_of i (case sub_tasks d (task_id t) of [] \<Rightarrow> [(t, None)]
                            | c # cs \<Rightarrow> map (\<lambda>s. (t, Some s)) (c # cs))
      = (if task_id t = i then sub_tasks d i else [])"
    by (cases "sub_tasks d (task_id t)")
       (auto simp: children_of_def map_filter_def comp_def)
  have "join_rows d (t # ts)
      = (case sub_tasks d (task_id t) of [] \<Rightarrow> [(t, None)]
         | c # cs \<Rightarrow> map (\<lambda>s. (t, Some s)) (c # cs)) @ join_rows d ts"
    by (simp add: join_rows_def)
  with one Cons show ?case by (simp add: children_of_append)
qed

lemma concat_one_owner:
  "distinct (map task_id ts) \<Longrightarrow> t \<in> set ts \<Longrightarrow>
   concat (map (\<lambda>t'. if task_id t' = task_id t then xs else []) ts) = xs"
proof (induction ts)
  case Nil
  then show ?case by simp
next
  case (Cons a ts)
  show ?case
  proof (cases "a = t")
    case True
    from Cons.prems(1) True have "\<forall>x\<in>set ts. task_id x \<noteq> task_id t"
      by (simp add: image_iff) metis
    then have "concat (map (\<lambda>t'. if task_id t' = task_id t then xs else []) ts) = []"
      by (induction ts) auto
    with True show ?thesis by simp
  next
    case False
    with Cons.prems have "t \<in> set ts" "task_id a \<noteq> task_id t"
      by (auto simp: image_iff)
    with Cons show ?thesis by simp
  qed
qed

lemma fst_join_rows: "fst ` set (join_rows d ts) = set ts"
proof (induction ts)
  case Nil
  show ?case by (simp add: join_rows_def)
next
  case (Cons t ts)
  have "fst ` set (case sub_tasks d (task_id t) of [] \<Rightarrow> [(t, None)]
                   | c # cs \<Rightarrow> map (\<lambda>s. (t, Some s)) (c # cs)) = {t}"
    by (cases "sub_tasks d (task_id t)") (auto simp: image_iff)
  moreover have "join_rows d (t # ts)
      = (case sub_tasks d (task_id t) of [] \<Rightarrow> [(t, None)]
         | c # cs \<Rightarrow> map (\<lambda>s. (t, Some s)) (c # cs)) @ join_rows d ts"
    by (simp add: join_rows_def)
  ultimately show ?case using Cons by (simp add: image_Un)
qed

lemma fst_order_rows: "fst ` set (order_rows (join_rows d ts)) = set ts"
  by (simp add: order_rows_def fst_join_rows)


lemma main_rows_set:
  "set (main_rows d userId)
     = {t \<in> set (tasks d). \<not> isDone t \<and>
          (\<exists>p. findByPk_project d (projectId t) = Some p \<and> creatorId p = userId)}"
  by (auto simp: main_rows_def split: option.splits)

lemma main_rows_keys:
  "primary_keys d \<Longrightarrow> distinct (map task_id (main_rows d userId))"
  by (simp add: primary_keys_def main_rows_def distinct_map_filter)

lemma fst_with_labels: "map (fst \<circ> with_labels d) cs = cs"
  by (induction cs) (simp_all add: with_labels_def)

lemma retrieveAll_entries:
  assumes "primary_keys d" and "e \<in> set (retrieveAll d userId)"
  shows "pt_task e \<in> set (main_rows d userId) \<and>
         pt_labels e = labels_of d (task_id (pt_task e)) \<and>
         map snd (pt_tasks e) = map (labels_of d \<circ> task_id) (map fst (pt_tasks e)) \<and>
         sorted (map position (map fst (pt_tasks e))) \<and>
         mset (map fst (pt_tasks e)) = mset (sub_tasks d (task_id (pt_task e)))"
proof -
  let ?ts = "main_rows d userId"
  let ?rows = "order_rows (join_rows d ?ts)"
  from assms(2) have "e \<in> set (group_rows d ?rows)"
    by (simp add: retrieveAll_def)
  from group_rows_entries [OF this] obtain q where q: "q \<in> set ?rows"
    and e: "pt_task e = fst q" "pt_labels e = labels_of d (task_id (fst q))"
      "pt_tasks e = map (with_labels d) (children_of (task_id (fst q)) ?rows)"
    by blast
  from q have mem: "fst q \<in> set ?ts"
    using fst_order_rows [of d ?ts] by (metis imageI)
  have kids: "map fst (pt_tasks e) = children_of (task_id (pt_task e)) ?rows"
    using e by (simp add: fst_with_labels)
  have "mset (children_of (task_id (pt_task e)) ?rows)
      = mset (concat (map (\<lambda>t'. if task_id t' = task_id (fst q) then sub_tasks d (task_id (fst q)) else []) ?ts))"
    using e(1) by (simp add: mset_children_of_order_rows children_of_join_rows)
  also have "\<dots> = mset (sub_tasks d (task_id (fst q)))"
    by (simp only: concat_one_owner [OF main_rows_keys [OF assms(1)] mem])
  finally have m: "mset (map fst (pt_tasks e)) = mset (sub_tasks d (task_id (pt_task e)))"
    using kids e(1) by simp
  have s: "sorted (map position (map fst (pt_tasks e)))"
    unfolding kids by (rule sorted_children_of_order_rows)
  have l: "map snd (pt_tasks e) = map (labels_of d \<circ> task_id) (map fst (pt_tasks e))"
    using e(3) by (simp add: with_labels_def comp_def)
  from mem e(1,2) m s l show ?thesis by simp
qed

lemma retrieveAll_tasks:
  assumes "primary_keys d"
  shows "set (map pt_task (retrieveAll d userId)) = set (main_rows d userId)"
    and "distinct (map pt_task (retrieveAll d userId))"
proof -
  let ?ts = "main_rows d userId"
  let ?rows = "order_rows (join_rows d ?ts)"
  have ids: "set (map (task_id \<circ> pt_task) (group_rows d ?rows)) = set (map (task_id \<circ> fst) ?rows)"
    and dist: "distinct (map (task_id \<circ> pt_task) (group_rows d ?rows))"
    using group_rows_ids [of d ?rows] by simp_all
  have sub: "set (map pt_task (retrieveAll d userId)) \<subseteq> set ?ts"
    using retrieveAll_entries [OF assms] by auto
  have sup: "set ?ts \<subseteq> set (map pt_task (retrieveAll d userId))"
  proof
    fix t assume t: "t \<in> set ?ts"
    then have "t \<in> fst ` set ?rows"
      by (simp only: fst_order_rows)
    then have "task_id t \<in> set (map (task_id \<circ> fst) ?rows)"
      by auto
    then have "task_id t \<in> set (map (task_id \<circ> pt_task) (group_rows d ?rows))"
      unfolding ids .
    then obtain e where e: "e \<in> set (retrieveAll d userId)" "task_id (pt_task e) = task_id t"
      unfolding retrieveAll_def by auto
    from retrieveAll_entries [OF assms e(1)] have "pt_task e \<in> set ?ts" by simp
    with t e(2) main_rows_keys [OF assms, of userId] have "pt_task e = t"
      by (meson distinct_map inj_onD)
    with e(1) show "t \<in> set (map pt_task (retrieveAll d userId))" by force
  qed
  from sub sup show "set (map pt_task (retrieveAll d userId)) = set (main_rows d userId)"
    by blast
  from dist have "distinct (map (task_id \<circ> pt_task) (retrieveAll d userId))"
    by (simp add: retrieveAll_def)
  then have "distinct (retrieveAll d userId) \<and> inj_on (task_id \<circ> pt_task) (set (retrieveAll d userId))"
    by (simp only: distinct_map)
  then show "distinct (map pt_task (retrieveAll d userId))"
    by (auto simp: distinct_map dest: inj_on_imageI2)
qed

text \<open>
  C6, as the specification states it, does not hold: the order of the query is on the
  position of the sub-tasks. For user 10 the tasks 1 and 2 are returned in this order,
  because the sub-task of task 1 is at position 1 and the sub-task of task 2 at
  position 2; their own positions are 2 and 1.
\<close>

theorem retrieveAll_not_by_position:
  "map (task_id \<circ> pt_task) (retrieveAll sample_db 10) = [1, 2] \<and>
   map (position \<circ> pt_task) (retrieveAll sample_db 10) = [2, 1] \<and>
   \<not> sorted (map (position \<circ> pt_task) (retrieveAll sample_db 10))"
  by code_simp

text \<open>
  C6, amended. In a database whose primary keys are unique, \<open>retrieveAll\<close> returns
  exactly the tasks that are not done and whose project has the user as creator, each
  once and with its sub-tasks, and the sub-tasks of each returned task are ordered by
  position ascending.
\<close>

theorem retrieveAll_result:
  assumes "primary_keys d"
  shows "set (map pt_task (retrieveAll d userId))
           = {t \<in> set (tasks d). \<not> isDone t \<and>
                (\<exists>p. findByPk_project d (projectId t) = Some p \<and> creatorId p = userId)} \<and>
         distinct (map pt_task (retrieveAll d userId)) \<and>
         (\<forall>e\<in>set (retrieveAll d userId).
            mset (map fst (pt_tasks e)) = mset (sub_tasks d (task_id (pt_task e))) \<and>
            sorted (map (position \<circ> fst) (pt_tasks e)))"
proof -
  have "\<forall>e\<in>set (retrieveAll d userId).
            mset (map fst (pt_tasks e)) = mset (sub_tasks d (task_id (pt_task e))) \<and>
            sorted (map (position \<circ> fst) (pt_tasks e))"
    using retrieveAll_entries [OF assms] by (simp add: comp_def)
  with retrieveAll_tasks [OF assms, of userId] show ?thesis
    by (simp only: main_rows_set)
qed

theorem retrieveAll_result_witness:
  "map (task_id \<circ> pt_task) (retrieveAll sample_db 10) = [1, 2] \<and>
   distinct (map pt_task (retrieveAll sample_db 10)) \<and>
   list_all (\<lambda>e. sorted (map (position \<circ> fst) (pt_tasks e))) (retrieveAll sample_db 10)"
proof -
  have "map (task_id \<circ> pt_task) (retrieveAll sample_db 10) = [1, 2]"
    by code_simp
  with retrieveAll_result [OF sample_db_keys, of 10] show ?thesis
    by (simp only: list_all_iff) simp
qed

section \<open>Properties of the user store\<close>

text \<open>
  C7. When the call of the authorize API fails, \<open>checkUser\<close> shows the dialog of the
  failed login and then calls the router with the path /login, and that is all it does:
  no mutation is committed and the state of the store is as it was.
\<close>

theorem checkUser_failure:
  "store (checkUser (Inl err) w) = store w \<and>
   pathname (checkUser (Inl err) w) = pathname w \<and>
   effects (checkUser (Inl err) w) = effects w @ [Alert LOGIN_FAILED, Replace ''/login'']"
  by (simp add: checkUser_def router_replace_def alert_def)

text \<open>
  C8. When the call of the authorize API succeeds, \<open>checkUser\<close> commits \<open>SET_USER\<close>,
  after which the user of the store is the id, name and email of the answer and nothing
  else of it, and then calls the router: with /today when the current path is / or
  /login, and with the current path otherwise.
\<close>

theorem checkUser_success:
  "user (store (checkUser (Inr r) w))
     = \<lparr>user_id = user_id (data r), name = name (data r), email = email (data r)\<rparr> \<and>
   effects (checkUser (Inr r) w)
     = effects w @ [Commit ''SET_USER'',
                    Replace (if pathname w = ''/'' \<or> pathname w = ''/login'' then ''/today''
                             else pathname w)]"
  by (simp add: checkUser_def router_replace_def commit_SET_USER_def SET_USER_def Let_def)

end
